theory Spec2Isabelle
  imports Complex_Main
begin

section \<open>Model inputs\<close>

text \<open>
  Embedding of \<^verbatim>\<open>export_static_preview.py\<close>. Python floats are idealised as
  \<^typ>\<open>real\<close>: \<^verbatim>\<open>+ - * /\<close> are the field operations, \<^verbatim>\<open>x ** n\<close> with an
  integer exponent from \<^verbatim>\<open>range\<close> is \<open>x ^ n\<close>, and \<^verbatim>\<open>x ** y\<close> with a float
  exponent is \<open>x powr y\<close> (the base is always an odds ratio of the table, which is
  positive). Python ints are \<^typ>\<open>int\<close>. A dictionary literal is an association list
  in the order it is written; indexing it with a missing key raises \<^verbatim>\<open>KeyError\<close>.
\<close>

datatype error = KeyError string | OverflowError

definition dict_getitem :: "(string \<times> 'v) list \<Rightarrow> string \<Rightarrow> error + 'v" where
  "dict_getitem d k = (case map_of d k of None \<Rightarrow> Inl (KeyError k) | Some v \<Rightarrow> Inr v)"

record outcome_profile =
  odds_ratio :: real
  current_rate :: real
  cost_per_case :: real
  ci_lower :: real
  ci_upper :: real

definition mnch_outcomes :: "(string \<times> outcome_profile) list" where
  "mnch_outcomes = [
    (''Gestational Diabetes'', \<lparr>odds_ratio = 1.07, current_rate = 0.05, cost_per_case = 2000, ci_lower = 1.01, ci_upper = 1.54\<rparr>),
    (''Hypertension during Pregnancy'', \<lparr>odds_ratio = 1.12, current_rate = 0.1, cost_per_case = 1500, ci_lower = 1.03, ci_upper = 1.21\<rparr>),
    (''Maternal Admission'', \<lparr>odds_ratio = 1.01, current_rate = 0.02, cost_per_case = 1000, ci_lower = 1.00, ci_upper = 1.03\<rparr>),
    (''Infections'', \<lparr>odds_ratio = 1.29, current_rate = 0.02, cost_per_case = 800, ci_lower = 1.05, ci_upper = 1.58\<rparr>),
    (''Prelabour Rupture of Membranes'', \<lparr>odds_ratio = 1.08, current_rate = 0.02, cost_per_case = 1200, ci_lower = 1.07, ci_upper = 1.09\<rparr>),
    (''Antenatal Bleeding'', \<lparr>odds_ratio = 1.16, current_rate = 0.005, cost_per_case = 2500, ci_lower = 1.13, ci_upper = 1.40\<rparr>),
    (''Cardiovascular Event'', \<lparr>odds_ratio = 1.11, current_rate = 0.01, cost_per_case = 3000, ci_lower = 1.06, ci_upper = 1.15\<rparr>),
    (''Stillbirth'', \<lparr>odds_ratio = 1.14, current_rate = 0.005, cost_per_case = 5000, ci_lower = 0.99, ci_upper = 1.32\<rparr>),
    (''Congenital Anomalies'', \<lparr>odds_ratio = 1.13, current_rate = 0.02, cost_per_case = 10000, ci_lower = 0.99, ci_upper = 1.85\<rparr>),
    (''Spontaneous Abortion'', \<lparr>odds_ratio = 1.31, current_rate = 0.01, cost_per_case = 5000, ci_lower = 0.99, ci_upper = 3.30\<rparr>),
    (''Non-reassuring Fetal Status'', \<lparr>odds_ratio = 1.21, current_rate = 0.02, cost_per_case = 800, ci_lower = 1.12, ci_upper = 1.32\<rparr>),
    (''Composite Outcome'', \<lparr>odds_ratio = 1.42, current_rate = 0.1, cost_per_case = 2000, ci_lower = 1.00, ci_upper = 2.03\<rparr>),
    (''Preterm Birth'', \<lparr>odds_ratio = 1.04, current_rate = 0.1, cost_per_case = 32000, ci_lower = 1.03, ci_upper = 1.06\<rparr>),
    (''Low Birth Weight'', \<lparr>odds_ratio = 1.13, current_rate = 0.08, cost_per_case = 800, ci_lower = 1.02, ci_upper = 1.26\<rparr>),
    (''Small for Gestational Age'', \<lparr>odds_ratio = 1.10, current_rate = 0.02, cost_per_case = 800, ci_lower = 1.02, ci_upper = 1.18\<rparr>),
    (''Neonatal Admission'', \<lparr>odds_ratio = 1.22, current_rate = 0.02, cost_per_case = 1500, ci_lower = 1.02, ci_upper = 1.43\<rparr>),
    (''Neonatal Morbidity'', \<lparr>odds_ratio = 1.04, current_rate = 0.02, cost_per_case = 800, ci_lower = 1.03, ci_upper = 1.06\<rparr>),
    (''Obstetric Complication'', \<lparr>odds_ratio = 1.05, current_rate = 0.1, cost_per_case = 1500, ci_lower = 1.03, ci_upper = 1.06\<rparr>)]"

definition rcp_scenarios :: "(string \<times> real) list" where
  "rcp_scenarios = [(''RCP 2.6'', 1.5), (''RCP 4.5'', 2.4), (''RCP 6.0'', 3.0), (''RCP 8.5'', 4.3)]"

definition population_growth_rates :: "(string \<times> real) list" where
  "population_growth_rates = [(''Low Growth'', 0.01), (''Medium Growth'', 0.02), (''High Growth'', 0.03)]"

definition pregnancy_growth_rates :: "(string \<times> real) list" where
  "pregnancy_growth_rates = [
    (''High Reduction'', - 0.15), (''Medium Reduction'', - 0.1), (''Low Reduction'', - 0.05),
    (''Low Growth'', 0.01), (''Medium Growth'', 0.02), (''High Growth'', 0.03)]"

section \<open>Helpers\<close>

text \<open>\<^verbatim>\<open>range(num_years)\<close> is empty for \<open>num_years \<le> 0\<close>, as \<open>[0..<nat num_years]\<close> is.\<close>

definition calculate_population_growth :: "real \<Rightarrow> real \<Rightarrow> int \<Rightarrow> real list" where
  "calculate_population_growth initial_population growth_rate num_years =
     map (\<lambda>year. initial_population * ((1 + growth_rate) ^ year)) [0..<nat num_years]"

definition calculate_pregnancies :: "real list \<Rightarrow> real \<Rightarrow> real list" where
  "calculate_pregnancies population pregnancy_rate = map (\<lambda>pop. pop * pregnancy_rate) population"

text \<open>\<^verbatim>\<open>range(start_year, end_year + 1)\<close> is the integer interval \<open>[start_year..end_year]\<close>.\<close>

definition calculate_temperature_increase_per_year :: "real \<Rightarrow> int \<Rightarrow> int \<Rightarrow> real list" where
  "calculate_temperature_increase_per_year temp_increase_2100 start_year end_year =
     (let total_years = (2100 - 2024 :: int);
          annual_increase = temp_increase_2100 / real_of_int total_years
      in map (\<lambda>year. annual_increase * real_of_int (year - 2024)) [start_year..end_year])"

section \<open>The projection\<close>

text \<open>
  The local variables of \<^verbatim>\<open>calculate_additional_outcomes_and_costs\<close> assigned after the
  table lookups (source lines 90 to 109), in the order of assignment.
\<close>

record frame =
  num_years :: int
  selected_years :: "int list"
  population_growth_selected :: "real list"
  pregnancies :: "real list"
  baseline_outcomes :: "real list"
  temperature_increase_per_year :: "real list"
  projected_rates :: "real list"
  projected_outcomes :: "real list"
  additional_outcomes :: "real list"
  effective_additional_outcomes :: "real list"
  effective_additional_outcomes_lower :: "real list"
  effective_additional_outcomes_upper :: "real list"
  costs :: "real list"
  costs_lower :: "real list"
  costs_upper :: "real list"

definition locals :: "outcome_profile \<Rightarrow> real \<Rightarrow> real \<Rightarrow> real \<Rightarrow> int \<times> int \<Rightarrow> real \<Rightarrow> real \<Rightarrow> real \<Rightarrow> frame" where
  "locals profile temp_increase_2100 population_growth_rate pregnancy_growth_rate
      time_period current_population initial_pregnancy_rate adaptation_effectiveness =
    (let (start_year, end_year) = time_period;
         num_years = end_year - start_year + 1;
         selected_years = [start_year..end_year];
         population_growth_selected =
           calculate_population_growth current_population population_growth_rate num_years;
         pregnancies =
           calculate_pregnancies population_growth_selected
             (initial_pregnancy_rate * (1 + pregnancy_growth_rate));
         baseline_outcomes = map (\<lambda>preg. preg * current_rate profile) pregnancies;
         temperature_increase_per_year =
           calculate_temperature_increase_per_year temp_increase_2100 start_year end_year;
         projected_rates =
           map (\<lambda>temp_increase. current_rate profile * (odds_ratio profile powr temp_increase))
             temperature_increase_per_year;
         projected_outcomes = map (\<lambda>(rate, preg). rate * preg) (zip projected_rates pregnancies);
         additional_outcomes =
           map (\<lambda>(proj, base). proj - base) (zip projected_outcomes baseline_outcomes);
         effective_additional_outcomes =
           map (\<lambda>o'. o' * (1 - adaptation_effectiveness / 100)) additional_outcomes;
         effective_additional_outcomes_lower =
           map (\<lambda>o'. o' * (1 - adaptation_effectiveness / 100) * ci_lower profile / odds_ratio profile)
             additional_outcomes;
         effective_additional_outcomes_upper =
           map (\<lambda>o'. o' * (1 - adaptation_effectiveness / 100) * ci_upper profile / odds_ratio profile)
             additional_outcomes;
         costs = map (\<lambda>o'. o' * cost_per_case profile) effective_additional_outcomes;
         costs_lower = map (\<lambda>o'. o' * cost_per_case profile) effective_additional_outcomes_lower;
         costs_upper = map (\<lambda>o'. o' * cost_per_case profile) effective_additional_outcomes_upper
     in \<lparr>num_years = num_years, selected_years = selected_years,
         population_growth_selected = population_growth_selected, pregnancies = pregnancies,
         baseline_outcomes = baseline_outcomes,
         temperature_increase_per_year = temperature_increase_per_year,
         projected_rates = projected_rates, projected_outcomes = projected_outcomes,
         additional_outcomes = additional_outcomes,
         effective_additional_outcomes = effective_additional_outcomes,
         effective_additional_outcomes_lower = effective_additional_outcomes_lower,
         effective_additional_outcomes_upper = effective_additional_outcomes_upper,
         costs = costs, costs_lower = costs_lower, costs_upper = costs_upper\<rparr>)"

type_synonym projection =
  "int list \<times> real list \<times> real list \<times> real list \<times> real list \<times> real list \<times> real list \<times> real list"

text \<open>
  The four lookups come first, in the source's order, and the first missing key raises;
  the five fields of an outcome's profile are all present in every entry of the table.
  The function returns the tuple of eight series.
\<close>

definition calculate_additional_outcomes_and_costs ::
  "string \<Rightarrow> string \<Rightarrow> string \<Rightarrow> string \<Rightarrow> int \<times> int \<Rightarrow> real \<Rightarrow> real \<Rightarrow> real \<Rightarrow> error + projection" where
  "calculate_additional_outcomes_and_costs outcome rcp_scenario population_growth_curve
      pregnancy_growth_curve time_period current_population initial_pregnancy_rate
      adaptation_effectiveness =
    (case dict_getitem mnch_outcomes outcome of Inl e \<Rightarrow> Inl e | Inr profile \<Rightarrow>
     (case dict_getitem rcp_scenarios rcp_scenario of Inl e \<Rightarrow> Inl e | Inr temp_increase_2100 \<Rightarrow>
      (case dict_getitem population_growth_rates population_growth_curve of Inl e \<Rightarrow> Inl e
       | Inr population_growth_rate \<Rightarrow>
       (case dict_getitem pregnancy_growth_rates pregnancy_growth_curve of Inl e \<Rightarrow> Inl e
        | Inr pregnancy_growth_rate \<Rightarrow>
         (let f = locals profile temp_increase_2100 population_growth_rate pregnancy_growth_rate
                    time_period current_population initial_pregnancy_rate adaptation_effectiveness
          in Inr (selected_years f, effective_additional_outcomes f, costs f, additional_outcomes f,
                  effective_additional_outcomes_lower f, effective_additional_outcomes_upper f,
                  costs_lower f, costs_upper f))))))"

definition calculate_attributable_fraction :: "real \<Rightarrow> real" where
  "calculate_attributable_fraction r = (r - 1) / r"

section \<open>The preview computed by the script\<close>

text \<open>
  \<^verbatim>\<open>round(x)\<close> on a float returns the nearest integer, a tie going to the even one;
  \<^verbatim>\<open>round(x, n)\<close> does the same at the \<open>n\<close>-th decimal.
\<close>

definition py_round :: "real \<Rightarrow> int" where
  "py_round x =
     (let f = \<lfloor>x\<rfloor>; d = x - real_of_int f
      in if d < 1 / 2 then f else if 1 / 2 < d then f + 1 else if even f then f else f + 1)"

definition py_round_ndigits :: "real \<Rightarrow> nat \<Rightarrow> real" where
  "py_round_ndigits x n = real_of_int (py_round (x * 10 ^ n)) / 10 ^ n"

text \<open>The dictionary \<^verbatim>\<open>DEFAULTS\<close>; the script reads only keys that it has.\<close>

record defaults =
  outcome :: string
  rcp_scenario :: string
  population_growth_curve :: string
  pregnancy_growth_curve :: string
  time_period :: "int \<times> int"
  current_population :: real
  initial_pregnancy_rate :: real
  adaptation_effectiveness :: real

definition DEFAULTS :: defaults where
  "DEFAULTS = \<lparr>outcome = ''Preterm Birth'', rcp_scenario = ''RCP 2.6'',
     population_growth_curve = ''Medium Growth'', pregnancy_growth_curve = ''Medium Growth'',
     time_period = (2024, 2030), current_population = 7000000000,
     initial_pregnancy_rate = 0.02, adaptation_effectiveness = 50\<rparr>"

text \<open>
  The module-level variables of the script from the three projection runs to the
  indicators (source lines 129 to 163). The script's \<^verbatim>\<open>costs\<close> is \<open>costs'\<close> here and its
  \<^verbatim>\<open>_total_...\<close> names lose the leading underscore.
\<close>

record preview =
  sy :: "int list"
  eff_add_outcomes :: "real list"
  costs' :: "real list"
  add_outcomes :: "real list"
  eff_low :: "real list"
  eff_up :: "real list"
  cost_low :: "real list"
  cost_up :: "real list"
  worst_eff_add :: "real list"
  worst_costs :: "real list"
  worst_add :: "real list"
  zero_adapt_outcomes :: "real list"
  zero_adapt_costs :: "real list"
  mitigation_savings :: "real list"
  adaptation_savings :: "real list"
  mitigation_prevented :: "real list"
  adaptation_prevented :: "real list"
  attrib_frac :: real
  total_additional_outcomes :: int
  total_cost :: real
  total_mitigation_savings :: real
  total_adaptation_savings :: real
  total_mitigation_prevented :: int
  total_adaptation_prevented :: int

text \<open>
  The script runs on \<open>DEFAULTS\<close>; the model takes the dictionary as a parameter, so that
  the same statements cover every choice of defaults.
\<close>

definition compute_preview :: "defaults \<Rightarrow> error + preview" where
  "compute_preview D =
    (case calculate_additional_outcomes_and_costs (outcome D) (rcp_scenario D)
            (population_growth_curve D) (pregnancy_growth_curve D) (time_period D)
            (current_population D) (initial_pregnancy_rate D) (adaptation_effectiveness D) of
       Inl e \<Rightarrow> Inl e
     | Inr (sy0, eff_add_outcomes0, costs0, add_outcomes0, eff_low0, eff_up0, cost_low0, cost_up0) \<Rightarrow>
    (case calculate_additional_outcomes_and_costs (outcome D) ''RCP 8.5''
            (population_growth_curve D) (pregnancy_growth_curve D) (time_period D)
            (current_population D) (initial_pregnancy_rate D) 0 of
       Inl e \<Rightarrow> Inl e
     | Inr (w1, worst_eff_add0, worst_costs0, worst_add0, w5, w6, w7, w8) \<Rightarrow>
    (case calculate_additional_outcomes_and_costs (outcome D) (rcp_scenario D)
            (population_growth_curve D) (pregnancy_growth_curve D) (time_period D)
            (current_population D) (initial_pregnancy_rate D) 0 of
       Inl e \<Rightarrow> Inl e
     | Inr (z1, zero_adapt_outcomes0, zero_adapt_costs0, z4, z5, z6, z7, z8) \<Rightarrow>
    (case dict_getitem mnch_outcomes (outcome D) of
       Inl e \<Rightarrow> Inl e
     | Inr profile \<Rightarrow>
       (let mitigation_savings0 = map (\<lambda>(w, c). w - c) (zip worst_costs0 costs0);
            adaptation_savings0 = map (\<lambda>(z, c). z - c) (zip zero_adapt_costs0 costs0);
            mitigation_prevented0 = map (\<lambda>(w, s). w - s) (zip worst_add0 eff_add_outcomes0);
            adaptation_prevented0 = map (\<lambda>(z, s). z - s) (zip zero_adapt_outcomes0 eff_add_outcomes0)
        in Inr \<lparr>sy = sy0, eff_add_outcomes = eff_add_outcomes0, costs' = costs0,
             add_outcomes = add_outcomes0, eff_low = eff_low0, eff_up = eff_up0,
             cost_low = cost_low0, cost_up = cost_up0,
             worst_eff_add = worst_eff_add0, worst_costs = worst_costs0, worst_add = worst_add0,
             zero_adapt_outcomes = zero_adapt_outcomes0, zero_adapt_costs = zero_adapt_costs0,
             mitigation_savings = mitigation_savings0, adaptation_savings = adaptation_savings0,
             mitigation_prevented = mitigation_prevented0,
             adaptation_prevented = adaptation_prevented0,
             attrib_frac = calculate_attributable_fraction (odds_ratio profile),
             total_additional_outcomes = py_round (sum_list eff_add_outcomes0),
             total_cost = py_round_ndigits (sum_list costs0) 2,
             total_mitigation_savings = py_round_ndigits (sum_list mitigation_savings0) 2,
             total_adaptation_savings = py_round_ndigits (sum_list adaptation_savings0) 2,
             total_mitigation_prevented = py_round (sum_list mitigation_prevented0),
             total_adaptation_prevented = py_round (sum_list adaptation_prevented0)\<rparr>)))))"

section \<open>Facts about the helpers and the local variables\<close>

lemma length_calculate_population_growth:
  "length (calculate_population_growth p g n) = nat n"
  by (simp add: calculate_population_growth_def)

lemma nth_calculate_population_growth:
  "i < nat n \<Longrightarrow> calculate_population_growth p g n ! i = p * (1 + g) ^ i"
  by (simp add: calculate_population_growth_def)

lemma length_calculate_temperature_increase_per_year:
  "length (calculate_temperature_increase_per_year t s e) = nat (e - s + 1)"
  by (simp add: calculate_temperature_increase_per_year_def)

lemma nth_calculate_temperature_increase_per_year:
  "i < nat (e - s + 1) \<Longrightarrow>
     calculate_temperature_increase_per_year t s e ! i = t / 76 * real_of_int (s + int i - 2024)"
  by (simp add: calculate_temperature_increase_per_year_def)

lemma dict_getitem_cases:
  "dict_getitem d k = Inl (KeyError k) \<and> k \<notin> fst ` set d \<or> (\<exists>v. dict_getitem d k = Inr v \<and> (k, v) \<in> set d)"
  by (auto simp: dict_getitem_def map_of_eq_None_iff split: option.splits dest: map_of_SomeD)

lemma frame_lengths:
  "length (selected_years (locals p t g h (s, e) pop ipr a)) = nat (e - s + 1)"
  "length (population_growth_selected (locals p t g h (s, e) pop ipr a)) = nat (e - s + 1)"
  "length (pregnancies (locals p t g h (s, e) pop ipr a)) = nat (e - s + 1)"
  "length (additional_outcomes (locals p t g h (s, e) pop ipr a)) = nat (e - s + 1)"
  "length (effective_additional_outcomes (locals p t g h (s, e) pop ipr a)) = nat (e - s + 1)"
  "length (effective_additional_outcomes_lower (locals p t g h (s, e) pop ipr a)) = nat (e - s + 1)"
  "length (effective_additional_outcomes_upper (locals p t g h (s, e) pop ipr a)) = nat (e - s + 1)"
  "length (costs (locals p t g h (s, e) pop ipr a)) = nat (e - s + 1)"
  "length (costs_lower (locals p t g h (s, e) pop ipr a)) = nat (e - s + 1)"
  "length (costs_upper (locals p t g h (s, e) pop ipr a)) = nat (e - s + 1)"
  by (simp_all add: locals_def Let_def length_calculate_population_growth
        length_calculate_temperature_increase_per_year calculate_pregnancies_def)


lemma calc_InrE:
  assumes "calculate_additional_outcomes_and_costs oc sc pc gc tp pop ipr ae =
             Inr (ys, eff, cs, add, lo, up, clo, cup)"
  obtains p t g h where
    "dict_getitem mnch_outcomes oc = Inr p"
    "dict_getitem rcp_scenarios sc = Inr t"
    "dict_getitem population_growth_rates pc = Inr g"
    "dict_getitem pregnancy_growth_rates gc = Inr h"
    "ys = selected_years (locals p t g h tp pop ipr ae)"
    "eff = effective_additional_outcomes (locals p t g h tp pop ipr ae)"
    "cs = costs (locals p t g h tp pop ipr ae)"
    "add = additional_outcomes (locals p t g h tp pop ipr ae)"
    "lo = effective_additional_outcomes_lower (locals p t g h tp pop ipr ae)"
    "up = effective_additional_outcomes_upper (locals p t g h tp pop ipr ae)"
    "clo = costs_lower (locals p t g h tp pop ipr ae)"
    "cup = costs_upper (locals p t g h tp pop ipr ae)"
  using assms
  by (auto simp: calculate_additional_outcomes_and_costs_def Let_def split: sum.splits)

lemma calc_InrI:
  assumes "dict_getitem mnch_outcomes oc = Inr p"
    "dict_getitem rcp_scenarios sc = Inr t"
    "dict_getitem population_growth_rates pc = Inr g"
    "dict_getitem pregnancy_growth_rates gc = Inr h"
  shows "calculate_additional_outcomes_and_costs oc sc pc gc tp pop ipr ae =
     (let f = locals p t g h tp pop ipr ae
      in Inr (selected_years f, effective_additional_outcomes f, costs f, additional_outcomes f,
              effective_additional_outcomes_lower f, effective_additional_outcomes_upper f,
              costs_lower f, costs_upper f))"
  using assms by (simp add: calculate_additional_outcomes_and_costs_def)

lemma dict_getitem_key:
  "k \<in> fst ` set d \<Longrightarrow> \<exists>v. dict_getitem d k = Inr v"
  using dict_getitem_cases [of d k] by auto

lemma dict_getitem_missing:
  "k \<notin> fst ` set d \<Longrightarrow> dict_getitem d k = Inl (KeyError k)"
  using dict_getitem_cases [of d k] by force

section \<open>The returned series\<close>

text \<open>
  C10. Whenever a projection run returns, its eight series (years, effective additional
  outcomes, costs, uncapped additional outcomes, lower and upper effective bounds, lower
  and upper cost bounds) have the same length, the length of the years.
\<close>

theorem series_same_length:
  assumes "calculate_additional_outcomes_and_costs oc sc pc gc tp pop ipr ae =
             Inr (ys, eff, cs, add, lo, up, clo, cup)"
  shows "length eff = length ys \<and> length cs = length ys \<and> length add = length ys \<and>
         length lo = length ys \<and> length up = length ys \<and> length clo = length ys \<and>
         length cup = length ys"
proof -
  obtain s e where tp: "tp = (s, e)" by (cases tp)
  from assms show ?thesis
    by (elim calc_InrE) (simp add: tp frame_lengths)
qed

lemma calc_defaults_returns:
  "\<exists>ys eff cs add lo up clo cup.
     calculate_additional_outcomes_and_costs ''Preterm Birth'' ''RCP 2.6'' ''Medium Growth''
       ''Medium Growth'' (2024, 2030) 7000000000 0.02 50 = Inr (ys, eff, cs, add, lo, up, clo, cup)"
  by (simp add: calculate_additional_outcomes_and_costs_def dict_getitem_def mnch_outcomes_def
        rcp_scenarios_def population_growth_rates_def pregnancy_growth_rates_def Let_def)

theorem series_same_length_witness:
  "\<exists>ys eff cs add lo up clo cup.
     calculate_additional_outcomes_and_costs ''Preterm Birth'' ''RCP 2.6'' ''Medium Growth''
       ''Medium Growth'' (2024, 2030) 7000000000 0.02 50 = Inr (ys, eff, cs, add, lo, up, clo, cup) \<and>
     length ys = 7 \<and> length eff = 7 \<and> length cs = 7 \<and> length add = 7 \<and>
     length lo = 7 \<and> length up = 7 \<and> length clo = 7 \<and> length cup = 7"
proof -
  obtain ys eff cs add lo up clo cup where
    r: "calculate_additional_outcomes_and_costs ''Preterm Birth'' ''RCP 2.6'' ''Medium Growth''
       ''Medium Growth'' (2024, 2030) 7000000000 0.02 50 = Inr (ys, eff, cs, add, lo, up, clo, cup)"
    using calc_defaults_returns by blast
  have "length ys = 7"
    using r by (elim calc_InrE) (simp add: frame_lengths)
  with series_same_length [OF r] r show ?thesis by simp
qed

lemma frame_selected_years:
  "selected_years (locals p t g h (s, e) pop ipr a) = [s..e]"
  by (simp add: locals_def Let_def)



text \<open>
  C2. The source has no range check and raises nothing for \<open>end_year < start_year\<close>:
  both ranges are empty and the run returns eight empty series. With the four names in
  their tables, a reversed range gives the result \<open>([], [], [], [], [], [], [], [])\<close>.
\<close>

theorem empty_range_returns_empty:
  assumes "oc \<in> fst ` set mnch_outcomes" and "sc \<in> fst ` set rcp_scenarios"
    and "pc \<in> fst ` set population_growth_rates" and "gc \<in> fst ` set pregnancy_growth_rates"
    and "e < s"
  shows "calculate_additional_outcomes_and_costs oc sc pc gc (s, e) pop ipr ae =
       Inr ([], [], [], [], [], [], [], [])"
proof -
  obtain p t g h where lk: "dict_getitem mnch_outcomes oc = Inr p"
    "dict_getitem rcp_scenarios sc = Inr t"
    "dict_getitem population_growth_rates pc = Inr g"
    "dict_getitem pregnancy_growth_rates gc = Inr h"
    using assms(1-4) dict_getitem_key by meson
  have "nat (e - s + 1) = 0" using \<open>e < s\<close> by simp
  then show ?thesis
    unfolding calc_InrI [OF lk] Let_def
    using frame_lengths [of p t g h s e pop ipr ae] by simp
qed

theorem empty_range_returns_empty_witness:
  "calculate_additional_outcomes_and_costs ''Stillbirth'' ''RCP 8.5'' ''Low Growth''
       ''High Reduction'' (2050, 2040) 1000000 0.03 20 = Inr ([], [], [], [], [], [], [], [])"
proof -
  have "''Stillbirth'' \<in> fst ` set mnch_outcomes" by (simp add: mnch_outcomes_def)
  moreover have "''RCP 8.5'' \<in> fst ` set rcp_scenarios" by (simp add: rcp_scenarios_def)
  moreover have "''Low Growth'' \<in> fst ` set population_growth_rates"
    by (simp add: population_growth_rates_def)
  moreover have "''High Reduction'' \<in> fst ` set pregnancy_growth_rates"
    by (simp add: pregnancy_growth_rates_def)
  moreover have "(2040 :: int) < 2050" by simp
  ultimately show ?thesis
    by (rule empty_range_returns_empty)
qed

theorem empty_range_counterexample:
  "calculate_additional_outcomes_and_costs ''Preterm Birth'' ''RCP 2.6'' ''Medium Growth''
       ''Medium Growth'' (2030, 2024) 7000000000 0.02 50 = Inr ([], [], [], [], [], [], [], [])"
  by (simp add: calculate_additional_outcomes_and_costs_def dict_getitem_def mnch_outcomes_def
        rcp_scenarios_def population_growth_rates_def pregnancy_growth_rates_def Let_def
        locals_def calculate_population_growth_def calculate_pregnancies_def
        calculate_temperature_increase_per_year_def)

text \<open>
  C5. Indexing any of the four tables with a name that is not one of its keys raises
  \<^verbatim>\<open>KeyError\<close> for that name, and a projection run with such a name raises the
  \<^verbatim>\<open>KeyError\<close> of the first failing lookup (outcome, scenario, population growth,
  pregnancy growth, in this order) and returns no series.
\<close>

theorem unknown_key_raises:
  "(oc \<notin> fst ` set mnch_outcomes \<longrightarrow> dict_getitem mnch_outcomes oc = Inl (KeyError oc)) \<and>
   (sc \<notin> fst ` set rcp_scenarios \<longrightarrow> dict_getitem rcp_scenarios sc = Inl (KeyError sc)) \<and>
   (pc \<notin> fst ` set population_growth_rates \<longrightarrow>
      dict_getitem population_growth_rates pc = Inl (KeyError pc)) \<and>
   (gc \<notin> fst ` set pregnancy_growth_rates \<longrightarrow>
      dict_getitem pregnancy_growth_rates gc = Inl (KeyError gc)) \<and>
   (oc \<notin> fst ` set mnch_outcomes \<or> sc \<notin> fst ` set rcp_scenarios \<or>
    pc \<notin> fst ` set population_growth_rates \<or> gc \<notin> fst ` set pregnancy_growth_rates \<longrightarrow>
      calculate_additional_outcomes_and_costs oc sc pc gc tp pop ipr ae =
        Inl (KeyError (if oc \<notin> fst ` set mnch_outcomes then oc
                       else if sc \<notin> fst ` set rcp_scenarios then sc
                       else if pc \<notin> fst ` set population_growth_rates then pc else gc)))"
proof -
  let ?run = "calculate_additional_outcomes_and_costs oc sc pc gc tp pop ipr ae"
  have 1: "?run = Inl (KeyError oc)" if "oc \<notin> fst ` set mnch_outcomes"
    using dict_getitem_missing [OF that]
    by (simp add: calculate_additional_outcomes_and_costs_def)
  have 2: "?run = Inl (KeyError sc)"
    if "oc \<in> fst ` set mnch_outcomes" "sc \<notin> fst ` set rcp_scenarios"
    using dict_getitem_key [OF that(1)] dict_getitem_missing [OF that(2)]
    by (auto simp: calculate_additional_outcomes_and_costs_def)
  have 3: "?run = Inl (KeyError pc)"
    if "oc \<in> fst ` set mnch_outcomes" "sc \<in> fst ` set rcp_scenarios"
      "pc \<notin> fst ` set population_growth_rates"
    using dict_getitem_key [OF that(1)] dict_getitem_key [OF that(2)]
      dict_getitem_missing [OF that(3)]
    by (auto simp: calculate_additional_outcomes_and_costs_def)
  have 4: "?run = Inl (KeyError gc)"
    if "oc \<in> fst ` set mnch_outcomes" "sc \<in> fst ` set rcp_scenarios"
      "pc \<in> fst ` set population_growth_rates" "gc \<notin> fst ` set pregnancy_growth_rates"
    using dict_getitem_key [OF that(1)] dict_getitem_key [OF that(2)]
      dict_getitem_key [OF that(3)] dict_getitem_missing [OF that(4)]
    by (auto simp: calculate_additional_outcomes_and_costs_def)
  show ?thesis
    using 1 2 3 4 by (simp add: dict_getitem_missing)
qed

theorem unknown_key_raises_witness:
  "dict_getitem mnch_outcomes ''Not A Real Outcome'' = Inl (KeyError ''Not A Real Outcome'') \<and>
   dict_getitem rcp_scenarios ''RCP 9.9'' = Inl (KeyError ''RCP 9.9'') \<and>
   dict_getitem population_growth_rates ''No Growth'' = Inl (KeyError ''No Growth'') \<and>
   dict_getitem pregnancy_growth_rates ''Huge Growth'' = Inl (KeyError ''Huge Growth'') \<and>
   calculate_additional_outcomes_and_costs ''Not A Real Outcome'' ''RCP 2.6'' ''Medium Growth''
       ''Medium Growth'' (2024, 2030) 7000000000 0.02 50 = Inl (KeyError ''Not A Real Outcome'') \<and>
   calculate_additional_outcomes_and_costs ''Preterm Birth'' ''RCP 2.6'' ''Medium Growth''
       ''Huge Growth'' (2024, 2030) 7000000000 0.02 50 = Inl (KeyError ''Huge Growth'')"
proof -
  have a: "''Not A Real Outcome'' \<notin> fst ` set mnch_outcomes" by (simp add: mnch_outcomes_def)
  have b: "''RCP 9.9'' \<notin> fst ` set rcp_scenarios" by (simp add: rcp_scenarios_def)
  have c: "''No Growth'' \<notin> fst ` set population_growth_rates"
    by (simp add: population_growth_rates_def)
  have d: "''Huge Growth'' \<notin> fst ` set pregnancy_growth_rates"
    by (simp add: pregnancy_growth_rates_def)
  have a': "''Preterm Birth'' \<in> fst ` set mnch_outcomes" by (simp add: mnch_outcomes_def)
  have b': "''RCP 2.6'' \<in> fst ` set rcp_scenarios" by (simp add: rcp_scenarios_def)
  have c': "''Medium Growth'' \<in> fst ` set population_growth_rates"
    by (simp add: population_growth_rates_def)
  show ?thesis
    using a b c d a' b' c'
      unknown_key_raises [of "''Not A Real Outcome''" "''RCP 9.9''" "''No Growth''" "''Huge Growth''"
        "(2024, 2030)" 7000000000 "0.02" 50]
      unknown_key_raises [of "''Not A Real Outcome''" "''RCP 2.6''" "''Medium Growth''"
        "''Medium Growth''" "(2024, 2030)" 7000000000 "0.02" 50]
      unknown_key_raises [of "''Preterm Birth''" "''RCP 2.6''" "''Medium Growth''"
        "''Huge Growth''" "(2024, 2030)" 7000000000 "0.02" 50]
    by simp
qed

lemma frame_population:
  "population_growth_selected (locals p t g h (s, e) pop ipr a) =
     calculate_population_growth pop g (e - s + 1)"
  by (simp add: locals_def Let_def)

lemma frame_pregnancies:
  "pregnancies (locals p t g h (s, e) pop ipr a) =
     calculate_pregnancies (calculate_population_growth pop g (e - s + 1)) (ipr * (1 + h))"
  by (simp add: locals_def Let_def)

lemma frame_temperature:
  "temperature_increase_per_year (locals p t g h (s, e) pop ipr a) =
     calculate_temperature_increase_per_year t s e"
  by (simp add: locals_def Let_def)

section \<open>Population, pregnancies and temperature\<close>

text \<open>
  C3. In every projection run and at every index \<open>i\<close> of the range, the pregnancies are
  the population of that year times the flat rate
  \<open>initial_pregnancy_rate * (1 + pregnancy_growth_rate)\<close>, the same for all years, while the
  population compounds: \<open>current_population * (1 + population_growth_rate) ^ i\<close>.
\<close>
theorem pregnancies_flat_rate:
  assumes "i < nat (e - s + 1)"
  shows "pregnancies (locals p t g h (s, e) pop ipr a) ! i =
           population_growth_selected (locals p t g h (s, e) pop ipr a) ! i * (ipr * (1 + h)) \<and>
         population_growth_selected (locals p t g h (s, e) pop ipr a) ! i = pop * (1 + g) ^ i"
  using assms
  by (simp add: frame_population frame_pregnancies calculate_pregnancies_def
        length_calculate_population_growth nth_calculate_population_growth)

theorem pregnancies_flat_rate_witness:
  "(2 :: nat) < nat (2030 - 2024 + 1) \<and>
   pregnancies (locals \<lparr>odds_ratio = 104 / 100, current_rate = 1 / 10, cost_per_case = 32000, ci_lower = 103 / 100, ci_upper = 106 / 100\<rparr> (15 / 10) (2 / 100) (2 / 100) (2024, 2030) 7000000000 (2 / 100) 50) ! 2 =
     148569120 \<and>
   population_growth_selected
     (locals \<lparr>odds_ratio = 104 / 100, current_rate = 1 / 10, cost_per_case = 32000, ci_lower = 103 / 100, ci_upper = 106 / 100\<rparr> (15 / 10) (2 / 100) (2 / 100) (2024, 2030) 7000000000 (2 / 100) 50) ! 2 =
     7282800000"
  using pregnancies_flat_rate [of 2 2030 2024 "\<lparr>odds_ratio = 104 / 100, current_rate = 1 / 10, cost_per_case = 32000, ci_lower = 103 / 100, ci_upper = 106 / 100\<rparr>" "15 / 10" "2 / 100" "2 / 100" 7000000000 "2 / 100" 50]
  by (simp add: power2_eq_square)

text \<open>
  C4. For a scenario of the table and every year \<open>y\<close> of the range, the temperature
  increase is \<open>(temp_increase_2100 / (2100 - 2024)) * (y - 2024)\<close>, whatever the start
  year: it is negative for a year before 2024 and exactly 0 for the year 2024.
\<close>
theorem temperature_linear_ramp:
  assumes "dict_getitem rcp_scenarios sc = Inr t" and "s \<le> y" and "y \<le> e"
  shows "temperature_increase_per_year (locals p t g h (s, e) pop ipr a) ! nat (y - s) =
           (t / (2100 - 2024)) * (real_of_int y - 2024) \<and>
         (y < 2024 \<longrightarrow> temperature_increase_per_year (locals p t g h (s, e) pop ipr a) ! nat (y - s) < 0) \<and>
         (y = 2024 \<longrightarrow> temperature_increase_per_year (locals p t g h (s, e) pop ipr a) ! nat (y - s) = 0)"
proof -
  have "(sc, t) \<in> set rcp_scenarios"
    using assms(1) dict_getitem_cases [of rcp_scenarios sc] by auto
  then have pos: "0 < t" by (auto simp: rcp_scenarios_def)
  have i: "nat (y - s) < nat (e - s + 1)" using assms(2,3) by simp
  have eq: "temperature_increase_per_year (locals p t g h (s, e) pop ipr a) ! nat (y - s) =
      t / 76 * (real_of_int y - 2024)"
    using assms(2) by (simp add: frame_temperature nth_calculate_temperature_increase_per_year [OF i])
  have neg: "t / 76 * (real_of_int y - 2024) < 0" if "y < 2024"
    using pos that by (simp add: mult_pos_neg)
  have zero: "t / 76 * (real_of_int y - 2024) = 0" if "y = 2024"
    using that by simp
  show ?thesis
    unfolding eq using neg zero by simp
qed

theorem temperature_linear_ramp_witness:
  "temperature_increase_per_year
     (locals \<lparr>odds_ratio = 104 / 100, current_rate = 1 / 10, cost_per_case = 32000, ci_lower = 103 / 100, ci_upper = 106 / 100\<rparr> (15 / 10) (2 / 100) (2 / 100) (2020, 2030) 7000000000 (2 / 100) 50) ! 0 = - (3 / 38) \<and>
   temperature_increase_per_year
     (locals \<lparr>odds_ratio = 104 / 100, current_rate = 1 / 10, cost_per_case = 32000, ci_lower = 103 / 100, ci_upper = 106 / 100\<rparr> (15 / 10) (2 / 100) (2 / 100) (2020, 2030) 7000000000 (2 / 100) 50) ! 4 = 0 \<and>
   temperature_increase_per_year
     (locals \<lparr>odds_ratio = 104 / 100, current_rate = 1 / 10, cost_per_case = 32000, ci_lower = 103 / 100, ci_upper = 106 / 100\<rparr> (15 / 10) (2 / 100) (2 / 100) (2020, 2030) 7000000000 (2 / 100) 50) ! 5 = 3 / 152"
proof -
  have lk: "dict_getitem rcp_scenarios ''RCP 2.6'' = Inr (15 / 10)"
    by (simp add: dict_getitem_def rcp_scenarios_def)
  show ?thesis
    using temperature_linear_ramp [OF lk, of 2020 2020 2030 "\<lparr>odds_ratio = 104 / 100, current_rate = 1 / 10, cost_per_case = 32000, ci_lower = 103 / 100, ci_upper = 106 / 100\<rparr>" "2 / 100" "2 / 100" 7000000000 "2 / 100" 50]
      temperature_linear_ramp [OF lk, of 2020 2024 2030 "\<lparr>odds_ratio = 104 / 100, current_rate = 1 / 10, cost_per_case = 32000, ci_lower = 103 / 100, ci_upper = 106 / 100\<rparr>" "2 / 100" "2 / 100" 7000000000 "2 / 100" 50]
      temperature_linear_ramp [OF lk, of 2020 2025 2030 "\<lparr>odds_ratio = 104 / 100, current_rate = 1 / 10, cost_per_case = 32000, ci_lower = 103 / 100, ci_upper = 106 / 100\<rparr>" "2 / 100" "2 / 100" 7000000000 "2 / 100" 50]
    by simp
qed

lemma frame_additional_indep:
  "additional_outcomes (locals p t g h tp pop ipr a) = additional_outcomes (locals p t g h tp pop ipr a')"
  by (simp add: locals_def Let_def split: prod.splits)

lemma frame_effective:
  "effective_additional_outcomes (locals p t g h tp pop ipr a) =
     map (\<lambda>x. x * (1 - a / 100)) (additional_outcomes (locals p t g h tp pop ipr a))"
  by (simp add: locals_def Let_def split: prod.splits)

lemma frame_effective_lower:
  "effective_additional_outcomes_lower (locals p t g h tp pop ipr a) =
     map (\<lambda>x. x * (1 - a / 100) * ci_lower p / odds_ratio p)
       (additional_outcomes (locals p t g h tp pop ipr a))"
  by (simp add: locals_def Let_def split: prod.splits)

lemma frame_effective_upper:
  "effective_additional_outcomes_upper (locals p t g h tp pop ipr a) =
     map (\<lambda>x. x * (1 - a / 100) * ci_upper p / odds_ratio p)
       (additional_outcomes (locals p t g h tp pop ipr a))"
  by (simp add: locals_def Let_def split: prod.splits)

lemma frame_costs:
  "costs (locals p t g h tp pop ipr a) =
     map (\<lambda>x. x * cost_per_case p) (effective_additional_outcomes (locals p t g h tp pop ipr a))"
  by (simp add: locals_def Let_def split: prod.splits)

lemma frame_additional_nth:
  assumes "i < nat (e - s + 1)"
  shows "additional_outcomes (locals p t g h (s, e) pop ipr a) ! i =
     current_rate p * (odds_ratio p powr (t / 76 * real_of_int (s + int i - 2024))) *
       (pop * (1 + g) ^ i * (ipr * (1 + h))) -
     pop * (1 + g) ^ i * (ipr * (1 + h)) * current_rate p"
  using assms
  by (simp add: locals_def Let_def calculate_pregnancies_def length_calculate_population_growth
        length_calculate_temperature_increase_per_year nth_calculate_population_growth
        nth_calculate_temperature_increase_per_year)


lemma mnch_outcomes_odds_ratio:
  "dict_getitem mnch_outcomes oc = Inr p \<Longrightarrow> 1 < odds_ratio p"
  using dict_getitem_cases [of mnch_outcomes oc]
  by (auto simp: mnch_outcomes_def)

lemma frame_additional_factored:
  assumes "i < nat (e - s + 1)"
  shows "additional_outcomes (locals p t g h (s, e) pop ipr a) ! i =
     current_rate p * (pop * (1 + g) ^ i * (ipr * (1 + h))) *
       (odds_ratio p powr (t / 76 * real_of_int (s + int i - 2024)) - 1)"
  by (simp add: frame_additional_nth [OF assms] algebra_simps)

lemma frame_additional_positive:
  assumes "i < nat (e - s + 1)" and "1 < odds_ratio p" and "0 < t" and "2024 < s + int i"
    and "0 < current_rate p" and "0 < pop" and "0 < 1 + g" and "0 < ipr" and "0 < 1 + h"
  shows "0 < additional_outcomes (locals p t g h (s, e) pop ipr a) ! i"
proof -
  have "0 < t / 76 * real_of_int (s + int i - 2024)"
    using assms(3,4) by simp
  then have "1 < odds_ratio p powr (t / 76 * real_of_int (s + int i - 2024))"
    using assms(2) by (simp add: gr_one_powr)
  moreover have "0 < current_rate p * (pop * (1 + g) ^ i * (ipr * (1 + h)))"
    using assms(5-9) by simp
  ultimately show ?thesis
    unfolding frame_additional_factored [OF assms(1)] by simp
qed

section \<open>Adaptation and confidence bounds\<close>



text \<open>
  C7. In a returning run for an outcome whose profile has
  \<open>ci_lower \<le> odds_ratio \<le> ci_upper\<close> and \<open>0 < odds_ratio\<close>, at every year where the
  effective outcome is not negative the lower bound is \<open>effective * ci_lower / odds_ratio\<close>,
  the upper bound is \<open>effective * ci_upper / odds_ratio\<close>, and
  \<open>lower \<le> effective \<le> upper\<close>.
\<close>
theorem confidence_bounds_ordered:
  assumes "calculate_additional_outcomes_and_costs oc sc pc gc tp pop ipr ae =
             Inr (ys, eff, cs, add, lo, up, clo, cup)"
    and "dict_getitem mnch_outcomes oc = Inr p"
    and "ci_lower p \<le> odds_ratio p" and "odds_ratio p \<le> ci_upper p" and "0 < odds_ratio p"
    and "i < length eff" and "0 \<le> eff ! i"
  shows "lo ! i = eff ! i * ci_lower p / odds_ratio p \<and>
         up ! i = eff ! i * ci_upper p / odds_ratio p \<and>
         lo ! i \<le> eff ! i \<and> eff ! i \<le> up ! i"
proof -
  from assms(1) obtain p' t g h where lk: "dict_getitem mnch_outcomes oc = Inr p'"
    and eff: "eff = effective_additional_outcomes (locals p' t g h tp pop ipr ae)"
    and lo: "lo = effective_additional_outcomes_lower (locals p' t g h tp pop ipr ae)"
    and up: "up = effective_additional_outcomes_upper (locals p' t g h tp pop ipr ae)"
    by (elim calc_InrE)
  have p': "p' = p" using lk assms(2) by simp
  let ?add = "additional_outcomes (locals p t g h tp pop ipr ae)"
  have i: "i < length ?add"
    using assms(6) by (simp add: eff p' frame_effective)
  have e: "eff ! i = ?add ! i * (1 - ae / 100)"
    using i by (simp add: eff p' frame_effective)
  have l: "lo ! i = eff ! i * ci_lower p / odds_ratio p"
    using i by (simp add: lo p' frame_effective_lower e)
  have u: "up ! i = eff ! i * ci_upper p / odds_ratio p"
    using i by (simp add: up p' frame_effective_upper e)
  have "eff ! i * ci_lower p \<le> eff ! i * odds_ratio p"
    using assms(3,7) by (rule mult_left_mono)
  then have le: "eff ! i * ci_lower p / odds_ratio p \<le> eff ! i"
    using assms(5) by (simp add: pos_divide_le_eq)
  have "eff ! i * odds_ratio p \<le> eff ! i * ci_upper p"
    using assms(4,7) by (rule mult_left_mono)
  then have ge: "eff ! i \<le> eff ! i * ci_upper p / odds_ratio p"
    using assms(5) by (simp add: pos_le_divide_eq)
  show ?thesis
    using l u le ge by simp
qed


theorem confidence_bounds_ordered_witness:
  "\<exists>ys eff cs add lo up clo cup.
     calculate_additional_outcomes_and_costs ''Preterm Birth'' ''RCP 2.6'' ''Medium Growth''
       ''Medium Growth'' (2024, 2030) 7000000000 (2 / 100) 50 = Inr (ys, eff, cs, add, lo, up, clo, cup) \<and>
     1 < length eff \<and> 0 < eff ! 1 \<and>
     lo ! 1 = eff ! 1 * (103 / 100) / (104 / 100) \<and>
     up ! 1 = eff ! 1 * (106 / 100) / (104 / 100) \<and>
     lo ! 1 \<le> eff ! 1 \<and> eff ! 1 \<le> up ! 1"
proof -
  let ?p = "\<lparr>odds_ratio = 104 / 100, current_rate = 1 / 10, cost_per_case = 32000,
     ci_lower = 103 / 100, ci_upper = 106 / 100\<rparr>"
  let ?f = "locals ?p (15 / 10) (2 / 100) (2 / 100) (2024, 2030) 7000000000 (2 / 100) 50"
  have lk: "dict_getitem mnch_outcomes ''Preterm Birth'' = Inr ?p"
    "dict_getitem rcp_scenarios ''RCP 2.6'' = Inr (15 / 10)"
    "dict_getitem population_growth_rates ''Medium Growth'' = Inr (2 / 100)"
    "dict_getitem pregnancy_growth_rates ''Medium Growth'' = Inr (2 / 100)"
    by (simp_all add: dict_getitem_def mnch_outcomes_def rcp_scenarios_def
          population_growth_rates_def pregnancy_growth_rates_def)
  have run: "calculate_additional_outcomes_and_costs ''Preterm Birth'' ''RCP 2.6'' ''Medium Growth''
       ''Medium Growth'' (2024, 2030) 7000000000 (2 / 100) 50 =
     Inr (selected_years ?f, effective_additional_outcomes ?f, costs ?f, additional_outcomes ?f,
          effective_additional_outcomes_lower ?f, effective_additional_outcomes_upper ?f,
          costs_lower ?f, costs_upper ?f)"
    unfolding calc_InrI [OF lk] Let_def by (rule refl)
  have len: "1 < length (effective_additional_outcomes ?f)"
    by (simp add: frame_lengths)
  have "0 < additional_outcomes ?f ! 1"
    by (rule frame_additional_positive) simp_all
  then have pos: "0 < effective_additional_outcomes ?f ! 1"
    using len by (simp add: frame_effective)
  have "ci_lower ?p \<le> odds_ratio ?p" "odds_ratio ?p \<le> ci_upper ?p" "0 < odds_ratio ?p"
    by simp_all
  from confidence_bounds_ordered [OF run lk(1) this len] pos
  show ?thesis
    using run len by simp
qed

section \<open>The comparison and the indicators\<close>

lemma compute_preview_InrE:
  assumes "compute_preview D = Inr P"
  obtains ys eff cs add lo up clo cup w1 weff wcs wadd w5 w6 w7 w8 z1 zeff zcs z4 z5 z6 z7 z8 p
  where
    "calculate_additional_outcomes_and_costs (outcome D) (rcp_scenario D)
            (population_growth_curve D) (pregnancy_growth_curve D) (time_period D)
            (current_population D) (initial_pregnancy_rate D) (adaptation_effectiveness D) =
       Inr (ys, eff, cs, add, lo, up, clo, cup)"
    "calculate_additional_outcomes_and_costs (outcome D) ''RCP 8.5''
            (population_growth_curve D) (pregnancy_growth_curve D) (time_period D)
            (current_population D) (initial_pregnancy_rate D) 0 =
       Inr (w1, weff, wcs, wadd, w5, w6, w7, w8)"
    "calculate_additional_outcomes_and_costs (outcome D) (rcp_scenario D)
            (population_growth_curve D) (pregnancy_growth_curve D) (time_period D)
            (current_population D) (initial_pregnancy_rate D) 0 =
       Inr (z1, zeff, zcs, z4, z5, z6, z7, z8)"
    "dict_getitem mnch_outcomes (outcome D) = Inr p"
    "sy P = ys" "eff_add_outcomes P = eff" "costs' P = cs" "add_outcomes P = add"
    "worst_add P = wadd" "worst_costs P = wcs"
    "zero_adapt_outcomes P = zeff" "zero_adapt_costs P = zcs"
    "mitigation_savings P = map (\<lambda>(w, c). w - c) (zip wcs cs)"
    "adaptation_savings P = map (\<lambda>(z, c). z - c) (zip zcs cs)"
    "mitigation_prevented P = map (\<lambda>(w, s). w - s) (zip wadd eff)"
    "adaptation_prevented P = map (\<lambda>(z, s). z - s) (zip zeff eff)"
    "attrib_frac P = calculate_attributable_fraction (odds_ratio p)"
    "total_additional_outcomes P = py_round (sum_list eff)"
    "total_cost P = py_round_ndigits (sum_list cs) 2"
    "total_mitigation_savings P = py_round_ndigits (sum_list (map (\<lambda>(w, c). w - c) (zip wcs cs))) 2"
    "total_adaptation_savings P = py_round_ndigits (sum_list (map (\<lambda>(z, c). z - c) (zip zcs cs))) 2"
    "total_mitigation_prevented P = py_round (sum_list (map (\<lambda>(w, s). w - s) (zip wadd eff)))"
    "total_adaptation_prevented P = py_round (sum_list (map (\<lambda>(z, s). z - s) (zip zeff eff)))"
  using assms unfolding compute_preview_def Let_def
  by (auto split: sum.splits prod.splits)


lemma py_round_near: "\<bar>real_of_int (py_round x) - x\<bar> \<le> 1 / 2"
proof -
  have "real_of_int \<lfloor>x\<rfloor> \<le> x" "x < real_of_int \<lfloor>x\<rfloor> + 1" by linarith+
  then show ?thesis
    unfolding py_round_def Let_def by (auto simp: abs_le_iff)
qed

lemma py_round_ndigits_near: "\<bar>py_round_ndigits x 2 - x\<bar> \<le> 1 / 200"
proof -
  have "\<bar>real_of_int (py_round (x * 100)) - x * 100\<bar> \<le> 1 / 2"
    by (rule py_round_near)
  then show ?thesis
    unfolding py_round_ndigits_def by (simp add: abs_le_iff field_simps)
qed

lemma preview_series:
  assumes "compute_preview D = Inr P" and "time_period D = (s, e)"
  obtains p t g h where
    "dict_getitem mnch_outcomes (outcome D) = Inr p"
    "dict_getitem rcp_scenarios (rcp_scenario D) = Inr t"
    "dict_getitem population_growth_rates (population_growth_curve D) = Inr g"
    "dict_getitem pregnancy_growth_rates (pregnancy_growth_curve D) = Inr h"
    "sy P = [s..e]"
    "add_outcomes P = additional_outcomes (locals p t g h (s, e) (current_population D)
        (initial_pregnancy_rate D) (adaptation_effectiveness D))"
    "eff_add_outcomes P = map (\<lambda>x. x * (1 - adaptation_effectiveness D / 100)) (add_outcomes P)"
    "costs' P = map (\<lambda>x. x * cost_per_case p) (eff_add_outcomes P)"
    "worst_add P = additional_outcomes (locals p (43 / 10) g h (s, e) (current_population D)
        (initial_pregnancy_rate D) 0)"
    "worst_costs P = map (\<lambda>x. x * cost_per_case p) (worst_add P)"
    "zero_adapt_outcomes P = add_outcomes P"
    "zero_adapt_costs P = map (\<lambda>x. x * cost_per_case p) (add_outcomes P)"
    "length (add_outcomes P) = nat (e - s + 1)"
    "length (worst_add P) = nat (e - s + 1)"
proof -
  from assms(1) obtain ys eff cs add lo up clo cup w1 weff wcs wadd w5 w6 w7 w8
      z1 zeff zcs z4 z5 z6 z7 z8 where
    sel: "calculate_additional_outcomes_and_costs (outcome D) (rcp_scenario D)
            (population_growth_curve D) (pregnancy_growth_curve D) (time_period D)
            (current_population D) (initial_pregnancy_rate D) (adaptation_effectiveness D) =
       Inr (ys, eff, cs, add, lo, up, clo, cup)"
    and worst: "calculate_additional_outcomes_and_costs (outcome D) ''RCP 8.5''
            (population_growth_curve D) (pregnancy_growth_curve D) (time_period D)
            (current_population D) (initial_pregnancy_rate D) 0 =
       Inr (w1, weff, wcs, wadd, w5, w6, w7, w8)"
    and zero: "calculate_additional_outcomes_and_costs (outcome D) (rcp_scenario D)
            (population_growth_curve D) (pregnancy_growth_curve D) (time_period D)
            (current_population D) (initial_pregnancy_rate D) 0 =
       Inr (z1, zeff, zcs, z4, z5, z6, z7, z8)"
    and P: "sy P = ys" "eff_add_outcomes P = eff" "costs' P = cs" "add_outcomes P = add"
      "worst_add P = wadd" "worst_costs P = wcs"
      "zero_adapt_outcomes P = zeff" "zero_adapt_costs P = zcs"
    by (elim compute_preview_InrE)
  from sel obtain p t g h where lk: "dict_getitem mnch_outcomes (outcome D) = Inr p"
    "dict_getitem rcp_scenarios (rcp_scenario D) = Inr t"
    "dict_getitem population_growth_rates (population_growth_curve D) = Inr g"
    "dict_getitem pregnancy_growth_rates (pregnancy_growth_curve D) = Inr h"
    by (elim calc_InrE)
  have w: "dict_getitem rcp_scenarios ''RCP 8.5'' = Inr (43 / 10)"
    by (simp add: dict_getitem_def rcp_scenarios_def)
  let ?f = "\<lambda>t a. locals p t g h (s, e) (current_population D) (initial_pregnancy_rate D) a"
  have 1: "ys = [s..e]" "add = additional_outcomes (?f t (adaptation_effectiveness D))"
    "eff = effective_additional_outcomes (?f t (adaptation_effectiveness D))"
    "cs = costs (?f t (adaptation_effectiveness D))"
    using sel unfolding calc_InrI [OF lk] Let_def assms(2)
    by (simp_all add: frame_selected_years)
  have 2: "wadd = additional_outcomes (?f (43 / 10) 0)" "wcs = costs (?f (43 / 10) 0)"
    using worst unfolding calc_InrI [OF lk(1) w lk(3,4)] Let_def assms(2) by simp_all
  have 3: "zeff = effective_additional_outcomes (?f t 0)" "zcs = costs (?f t 0)"
    using zero unfolding calc_InrI [OF lk] Let_def assms(2) by simp_all
  have add0: "additional_outcomes (?f t 0) = add"
    unfolding 1 by (rule frame_additional_indep)
  show ?thesis
  proof (rule that [OF lk])
    show "sy P = [s..e]" by (simp add: P 1)
    show "add_outcomes P = additional_outcomes (?f t (adaptation_effectiveness D))"
      by (simp add: P 1)
    show "eff_add_outcomes P =
        map (\<lambda>x. x * (1 - adaptation_effectiveness D / 100)) (add_outcomes P)"
      by (simp add: P 1 frame_effective)
    show "costs' P = map (\<lambda>x. x * cost_per_case p) (eff_add_outcomes P)"
      by (simp add: P 1 frame_costs)
    show "worst_add P = additional_outcomes (?f (43 / 10) 0)" by (simp add: P 2)
    show "worst_costs P = map (\<lambda>x. x * cost_per_case p) (worst_add P)"
      by (simp add: P 2 frame_costs frame_effective)
    show "zero_adapt_outcomes P = add_outcomes P"
      by (simp add: P 3 frame_effective add0)
    show "zero_adapt_costs P = map (\<lambda>x. x * cost_per_case p) (add_outcomes P)"
      by (simp add: P 3 frame_costs frame_effective add0)
    show "length (add_outcomes P) = nat (e - s + 1)" by (simp add: P 1 frame_lengths)
    show "length (worst_add P) = nat (e - s + 1)" by (simp add: P 2 frame_lengths)
  qed
qed


lemma compute_preview_DEFAULTS: "\<exists>P. compute_preview DEFAULTS = Inr P"
  by (simp add: compute_preview_def DEFAULTS_def calculate_additional_outcomes_and_costs_def
        dict_getitem_def mnch_outcomes_def rcp_scenarios_def population_growth_rates_def
        pregnancy_growth_rates_def Let_def)

lemma preview_prevented_nth:
  assumes "compute_preview D = Inr P" and "i < length (sy P)"
  shows "mitigation_prevented P ! i = worst_add P ! i - eff_add_outcomes P ! i \<and>
         adaptation_prevented P ! i = zero_adapt_outcomes P ! i - eff_add_outcomes P ! i \<and>
         zero_adapt_outcomes P ! i = add_outcomes P ! i \<and>
         eff_add_outcomes P ! i = add_outcomes P ! i * (1 - adaptation_effectiveness D / 100)"
proof -
  obtain s e where tp: "time_period D = (s, e)" by (cases "time_period D")
  from assms(1) tp obtain p t g h where
    ys: "sy P = [s..e]"
    and eff: "eff_add_outcomes P =
        map (\<lambda>x. x * (1 - adaptation_effectiveness D / 100)) (add_outcomes P)"
    and zero: "zero_adapt_outcomes P = add_outcomes P"
    and len: "length (add_outcomes P) = nat (e - s + 1)" "length (worst_add P) = nat (e - s + 1)"
    by (elim preview_series)
  from assms(1) obtain wadd zeff eff' where
    m: "mitigation_prevented P = map (\<lambda>(w, s). w - s) (zip wadd eff')"
    and a: "adaptation_prevented P = map (\<lambda>(z, s). z - s) (zip zeff eff')"
    and f: "worst_add P = wadd" "zero_adapt_outcomes P = zeff" "eff_add_outcomes P = eff'"
    by (elim compute_preview_InrE)
  have i: "i < nat (e - s + 1)" using assms(2) by (simp add: ys)
  have "mitigation_prevented P ! i = worst_add P ! i - eff_add_outcomes P ! i"
    unfolding m f [symmetric] using i len by (simp add: eff)
  moreover have "adaptation_prevented P ! i = zero_adapt_outcomes P ! i - eff_add_outcomes P ! i"
    unfolding a f [symmetric] using i len by (simp add: eff zero)
  moreover have "eff_add_outcomes P ! i = add_outcomes P ! i * (1 - adaptation_effectiveness D / 100)"
    using i len by (simp add: eff)
  ultimately show ?thesis by (simp add: zero)
qed

text \<open>
  C1. For every year \<open>i\<close> of a preview, the prevented series subtract the selected run's
  effective (adaptation-adjusted) outcomes: \<open>mitigation_prevented[i]\<close> is the worst
  case's uncapped additional outcome minus the selected run's effective outcome, and
  \<open>adaptation_prevented[i]\<close> is the zero-adaptation run's effective outcome (which is the
  uncapped additional outcome of the selected scenario, adaptation being 0) minus the
  selected run's effective outcome. The subtrahend is not the uncapped series.
\<close>
theorem prevented_series:
  assumes "compute_preview D = Inr P" and "i < length (sy P)"
  shows "mitigation_prevented P ! i = worst_add P ! i - eff_add_outcomes P ! i \<and>
         adaptation_prevented P ! i = zero_adapt_outcomes P ! i - eff_add_outcomes P ! i \<and>
         zero_adapt_outcomes P ! i = add_outcomes P ! i \<and>
         eff_add_outcomes P ! i = add_outcomes P ! i * (1 - adaptation_effectiveness D / 100)"
  using assms by (rule preview_prevented_nth)

theorem prevented_series_witness:
  "\<exists>P. compute_preview DEFAULTS = Inr P \<and> 1 < length (sy P) \<and>
     mitigation_prevented P ! 1 = worst_add P ! 1 - eff_add_outcomes P ! 1 \<and>
     adaptation_prevented P ! 1 = zero_adapt_outcomes P ! 1 - eff_add_outcomes P ! 1 \<and>
     zero_adapt_outcomes P ! 1 = add_outcomes P ! 1 \<and>
     eff_add_outcomes P ! 1 = add_outcomes P ! 1 * (1 - 50 / 100)"
proof -
  obtain P where P: "compute_preview DEFAULTS = Inr P"
    using compute_preview_DEFAULTS by blast
  have tp: "time_period DEFAULTS = (2024, 2030)" by (simp add: DEFAULTS_def)
  from P tp have ys: "sy P = [2024..2030]"
    by (elim preview_series)
  have len: "1 < length (sy P)"
    unfolding ys length_upto by simp
  have "adaptation_effectiveness DEFAULTS = 50" by (simp add: DEFAULTS_def)
  with prevented_series [OF P len] P len show ?thesis by auto
qed

theorem prevented_series_counterexample:
  "\<not> isl (compute_preview DEFAULTS) \<and>
   mitigation_prevented (projr (compute_preview DEFAULTS)) ! 1 \<noteq>
     worst_add (projr (compute_preview DEFAULTS)) ! 1 -
     add_outcomes (projr (compute_preview DEFAULTS)) ! 1 \<and>
   adaptation_prevented (projr (compute_preview DEFAULTS)) ! 1 \<noteq>
     fst (snd (snd (snd (projr (calculate_additional_outcomes_and_costs ''Preterm Birth''
       ''RCP 2.6'' ''Medium Growth'' ''Medium Growth'' (2024, 2030) 7000000000 (2 / 100) 0))))) ! 1 -
     add_outcomes (projr (compute_preview DEFAULTS)) ! 1"
proof -
  obtain P where P: "compute_preview DEFAULTS = Inr P"
    using compute_preview_DEFAULTS by blast
  have tp: "time_period DEFAULTS = (2024, 2030)" by (simp add: DEFAULTS_def)
  let ?p = "\<lparr>odds_ratio = 104 / 100, current_rate = 1 / 10, cost_per_case = 32000,
     ci_lower = 103 / 100, ci_upper = 106 / 100\<rparr>"
  let ?f = "locals ?p (15 / 10) (2 / 100) (2 / 100) (2024, 2030) 7000000000 (2 / 100)"
  have lk: "dict_getitem mnch_outcomes ''Preterm Birth'' = Inr ?p"
    "dict_getitem rcp_scenarios ''RCP 2.6'' = Inr (15 / 10)"
    "dict_getitem population_growth_rates ''Medium Growth'' = Inr (2 / 100)"
    "dict_getitem pregnancy_growth_rates ''Medium Growth'' = Inr (2 / 100)"
    by (simp_all add: dict_getitem_def mnch_outcomes_def rcp_scenarios_def
          population_growth_rates_def pregnancy_growth_rates_def)
  have zrun: "fst (snd (snd (snd (projr (calculate_additional_outcomes_and_costs ''Preterm Birth''
       ''RCP 2.6'' ''Medium Growth'' ''Medium Growth'' (2024, 2030) 7000000000 (2 / 100) 0))))) =
     additional_outcomes (?f 0)"
    unfolding calc_InrI [OF lk] Let_def by simp
  from P tp obtain p t g h where
    lk': "dict_getitem mnch_outcomes (outcome DEFAULTS) = Inr p"
      "dict_getitem rcp_scenarios (rcp_scenario DEFAULTS) = Inr t"
      "dict_getitem population_growth_rates (population_growth_curve DEFAULTS) = Inr g"
      "dict_getitem pregnancy_growth_rates (pregnancy_growth_curve DEFAULTS) = Inr h"
    and ys: "sy P = [2024..2030]"
    and add: "add_outcomes P = additional_outcomes (locals p t g h (2024, 2030)
        (current_population DEFAULTS) (initial_pregnancy_rate DEFAULTS)
        (adaptation_effectiveness DEFAULTS))"
    by (elim preview_series)
  have vals: "p = ?p" "t = 15 / 10" "g = 2 / 100" "h = 2 / 100"
    using lk' lk by (simp_all add: DEFAULTS_def)
  have add': "add_outcomes P = additional_outcomes (?f 50)"
    unfolding add vals by (simp add: DEFAULTS_def)
  have len: "1 < length (sy P)"
    unfolding ys length_upto by simp
  have pos: "0 < add_outcomes P ! 1"
    unfolding add' by (rule frame_additional_positive) simp_all
  have eq0: "additional_outcomes (?f 0) = add_outcomes P"
    unfolding add' by (rule frame_additional_indep)
  have ae: "adaptation_effectiveness DEFAULTS = 50" by (simp add: DEFAULTS_def)
  have c: "mitigation_prevented P ! 1 = worst_add P ! 1 - eff_add_outcomes P ! 1"
    "adaptation_prevented P ! 1 = zero_adapt_outcomes P ! 1 - eff_add_outcomes P ! 1"
    "zero_adapt_outcomes P ! 1 = add_outcomes P ! 1"
    "eff_add_outcomes P ! 1 = add_outcomes P ! 1 * (1 - 50 / 100)"
    using preview_prevented_nth [OF P len] ae by simp_all
  have "mitigation_prevented P ! 1 \<noteq> worst_add P ! 1 - add_outcomes P ! 1"
    using c pos by simp
  moreover have "adaptation_prevented P ! 1 \<noteq> additional_outcomes (?f 0) ! 1 - add_outcomes P ! 1"
    unfolding eq0 using c pos by simp
  ultimately show ?thesis
    unfolding zrun by (simp add: P)
qed


lemma compute_preview_returns:
  assumes "compute_preview D = Inr P"
  shows "\<exists>p. dict_getitem mnch_outcomes (outcome D) = Inr p \<and>
    total_additional_outcomes P = py_round (sum_list (eff_add_outcomes P)) \<and>
    total_cost P = py_round_ndigits (sum_list (costs' P)) 2 \<and>
    total_mitigation_savings P = py_round_ndigits (sum_list (mitigation_savings P)) 2 \<and>
    total_adaptation_savings P = py_round_ndigits (sum_list (adaptation_savings P)) 2 \<and>
    total_mitigation_prevented P = py_round (sum_list (mitigation_prevented P)) \<and>
    total_adaptation_prevented P = py_round (sum_list (adaptation_prevented P)) \<and>
    attrib_frac P = (odds_ratio p - 1) / odds_ratio p \<and>
    costs' P = map (\<lambda>x. x * cost_per_case p) (eff_add_outcomes P)"
proof -
  obtain s e where tp: "time_period D = (s, e)" by (cases "time_period D")
  from assms tp obtain p t g h where
    p: "dict_getitem mnch_outcomes (outcome D) = Inr p"
    and cs: "costs' P = map (\<lambda>x. x * cost_per_case p) (eff_add_outcomes P)"
    by (elim preview_series)
  from assms have
    "total_additional_outcomes P = py_round (sum_list (eff_add_outcomes P)) \<and>
     total_cost P = py_round_ndigits (sum_list (costs' P)) 2 \<and>
     total_mitigation_savings P = py_round_ndigits (sum_list (mitigation_savings P)) 2 \<and>
     total_adaptation_savings P = py_round_ndigits (sum_list (adaptation_savings P)) 2 \<and>
     total_mitigation_prevented P = py_round (sum_list (mitigation_prevented P)) \<and>
     total_adaptation_prevented P = py_round (sum_list (adaptation_prevented P))"
    by (elim compute_preview_InrE) simp
  moreover from assms p have "attrib_frac P = (odds_ratio p - 1) / odds_ratio p"
    by (elim compute_preview_InrE) (simp add: calculate_attributable_fraction_def)
  ultimately show ?thesis using p cs by blast
qed

text \<open>
  C9. The indicators of a preview: the total of additional outcomes and the two prevented
  totals are \<^verbatim>\<open>round\<close> of the sums; the total cost and the two savings totals are the
  sums rounded to two decimals by \<^verbatim>\<open>round(_, 2)\<close>, hence within 0.005 of the sums;
  the attributable fraction is \<open>(odds_ratio - 1) / odds_ratio\<close> of the selected outcome;
  the cost series itself is not rounded.
\<close>
theorem indicators_rounded:
  assumes "compute_preview D = Inr P"
  shows "\<exists>p. dict_getitem mnch_outcomes (outcome D) = Inr p \<and>
    total_additional_outcomes P = py_round (sum_list (eff_add_outcomes P)) \<and>
    total_cost P = py_round_ndigits (sum_list (costs' P)) 2 \<and>
    total_mitigation_savings P = py_round_ndigits (sum_list (mitigation_savings P)) 2 \<and>
    total_adaptation_savings P = py_round_ndigits (sum_list (adaptation_savings P)) 2 \<and>
    total_mitigation_prevented P = py_round (sum_list (mitigation_prevented P)) \<and>
    total_adaptation_prevented P = py_round (sum_list (adaptation_prevented P)) \<and>
    attrib_frac P = (odds_ratio p - 1) / odds_ratio p \<and>
    costs' P = map (\<lambda>x. x * cost_per_case p) (eff_add_outcomes P) \<and>
    \<bar>total_cost P - sum_list (costs' P)\<bar> \<le> 1 / 200 \<and>
    \<bar>total_mitigation_savings P - sum_list (mitigation_savings P)\<bar> \<le> 1 / 200 \<and>
    \<bar>total_adaptation_savings P - sum_list (adaptation_savings P)\<bar> \<le> 1 / 200"
proof -
  from compute_preview_returns [OF assms] obtain p where
    p: "dict_getitem mnch_outcomes (outcome D) = Inr p"
    and t: "total_additional_outcomes P = py_round (sum_list (eff_add_outcomes P))"
      "total_cost P = py_round_ndigits (sum_list (costs' P)) 2"
      "total_mitigation_savings P = py_round_ndigits (sum_list (mitigation_savings P)) 2"
      "total_adaptation_savings P = py_round_ndigits (sum_list (adaptation_savings P)) 2"
      "total_mitigation_prevented P = py_round (sum_list (mitigation_prevented P))"
      "total_adaptation_prevented P = py_round (sum_list (adaptation_prevented P))"
      "attrib_frac P = (odds_ratio p - 1) / odds_ratio p"
      "costs' P = map (\<lambda>x. x * cost_per_case p) (eff_add_outcomes P)"
    by blast
  have "\<bar>total_cost P - sum_list (costs' P)\<bar> \<le> 1 / 200"
    "\<bar>total_mitigation_savings P - sum_list (mitigation_savings P)\<bar> \<le> 1 / 200"
    "\<bar>total_adaptation_savings P - sum_list (adaptation_savings P)\<bar> \<le> 1 / 200"
    unfolding t(2-4) by (rule py_round_ndigits_near)+
  with p t show ?thesis by blast
qed


theorem indicators_rounded_witness:
  "\<exists>P. compute_preview DEFAULTS = Inr P \<and>
    total_additional_outcomes P = py_round (sum_list (eff_add_outcomes P)) \<and>
    total_cost P = py_round_ndigits (sum_list (costs' P)) 2 \<and>
    total_mitigation_savings P = py_round_ndigits (sum_list (mitigation_savings P)) 2 \<and>
    total_adaptation_savings P = py_round_ndigits (sum_list (adaptation_savings P)) 2 \<and>
    total_mitigation_prevented P = py_round (sum_list (mitigation_prevented P)) \<and>
    total_adaptation_prevented P = py_round (sum_list (adaptation_prevented P)) \<and>
    attrib_frac P = 1 / 26 \<and>
    costs' P = map (\<lambda>x. x * 32000) (eff_add_outcomes P) \<and>
    \<bar>total_cost P - sum_list (costs' P)\<bar> \<le> 1 / 200"
proof -
  obtain P where P: "compute_preview DEFAULTS = Inr P"
    using compute_preview_DEFAULTS by blast
  have lk: "dict_getitem mnch_outcomes (outcome DEFAULTS) =
      Inr \<lparr>odds_ratio = 104 / 100, current_rate = 1 / 10, cost_per_case = 32000,
        ci_lower = 103 / 100, ci_upper = 106 / 100\<rparr>"
    by (simp add: dict_getitem_def mnch_outcomes_def DEFAULTS_def)
  from indicators_rounded [OF P] lk P show ?thesis
    by auto
qed

lemma singleton_nth: "length xs = 1 \<Longrightarrow> xs = [xs ! 0]"
  by (cases xs) simp_all

theorem indicators_rounded_counterexample:
  "\<not> isl (compute_preview \<lparr>outcome = ''Preterm Birth'', rcp_scenario = ''RCP 6.0'',
       population_growth_curve = ''Medium Growth'', pregnancy_growth_curve = ''Medium Growth'',
       time_period = (2100, 2100), current_population = 1000,
       initial_pregnancy_rate = 2 / 100, adaptation_effectiveness = 50\<rparr>) \<and>
   sum_list (costs' (projr (compute_preview \<lparr>outcome = ''Preterm Birth'', rcp_scenario = ''RCP 6.0'',
       population_growth_curve = ''Medium Growth'', pregnancy_growth_curve = ''Medium Growth'',
       time_period = (2100, 2100), current_population = 1000,
       initial_pregnancy_rate = 2 / 100, adaptation_effectiveness = 50\<rparr>))) = 407556096 / 100000 \<and>
   total_cost (projr (compute_preview \<lparr>outcome = ''Preterm Birth'', rcp_scenario = ''RCP 6.0'',
       population_growth_curve = ''Medium Growth'', pregnancy_growth_curve = ''Medium Growth'',
       time_period = (2100, 2100), current_population = 1000,
       initial_pregnancy_rate = 2 / 100, adaptation_effectiveness = 50\<rparr>)) = 407556 / 100 \<and>
   total_cost (projr (compute_preview \<lparr>outcome = ''Preterm Birth'', rcp_scenario = ''RCP 6.0'',
       population_growth_curve = ''Medium Growth'', pregnancy_growth_curve = ''Medium Growth'',
       time_period = (2100, 2100), current_population = 1000,
       initial_pregnancy_rate = 2 / 100, adaptation_effectiveness = 50\<rparr>)) \<noteq> sum_list (costs' (projr (compute_preview \<lparr>outcome = ''Preterm Birth'', rcp_scenario = ''RCP 6.0'',
       population_growth_curve = ''Medium Growth'', pregnancy_growth_curve = ''Medium Growth'',
       time_period = (2100, 2100), current_population = 1000,
       initial_pregnancy_rate = 2 / 100, adaptation_effectiveness = 50\<rparr>)))"
proof -
  let ?D = "\<lparr>outcome = ''Preterm Birth'', rcp_scenario = ''RCP 6.0'',
       population_growth_curve = ''Medium Growth'', pregnancy_growth_curve = ''Medium Growth'',
       time_period = (2100, 2100), current_population = 1000,
       initial_pregnancy_rate = 2 / 100, adaptation_effectiveness = 50\<rparr>"
  have "\<exists>P. compute_preview ?D = Inr P"
    by (simp add: compute_preview_def calculate_additional_outcomes_and_costs_def
        dict_getitem_def mnch_outcomes_def rcp_scenarios_def population_growth_rates_def
        pregnancy_growth_rates_def Let_def)
  then obtain P where P: "compute_preview ?D = Inr P" by blast
  let ?p = "\<lparr>odds_ratio = 104 / 100, current_rate = 1 / 10, cost_per_case = 32000,
     ci_lower = 103 / 100, ci_upper = 106 / 100\<rparr>"
  have lk: "dict_getitem mnch_outcomes ''Preterm Birth'' = Inr ?p"
    "dict_getitem rcp_scenarios ''RCP 6.0'' = Inr 3"
    "dict_getitem population_growth_rates ''Medium Growth'' = Inr (2 / 100)"
    "dict_getitem pregnancy_growth_rates ''Medium Growth'' = Inr (2 / 100)"
    by (simp_all add: dict_getitem_def mnch_outcomes_def rcp_scenarios_def
          population_growth_rates_def pregnancy_growth_rates_def)
  have tp: "time_period ?D = (2100, 2100)" by simp
  from P tp obtain p t g h where
    lk': "dict_getitem mnch_outcomes (outcome ?D) = Inr p"
      "dict_getitem rcp_scenarios (rcp_scenario ?D) = Inr t"
      "dict_getitem population_growth_rates (population_growth_curve ?D) = Inr g"
      "dict_getitem pregnancy_growth_rates (pregnancy_growth_curve ?D) = Inr h"
    and add: "add_outcomes P = additional_outcomes (locals p t g h (2100, 2100)
        (current_population ?D) (initial_pregnancy_rate ?D) (adaptation_effectiveness ?D))"
    and eff: "eff_add_outcomes P =
        map (\<lambda>x. x * (1 - adaptation_effectiveness ?D / 100)) (add_outcomes P)"
    and cs: "costs' P = map (\<lambda>x. x * cost_per_case p) (eff_add_outcomes P)"
    and len: "length (add_outcomes P) = nat (2100 - 2100 + 1)"
    by (elim preview_series)
  have vals: "p = ?p" "t = 3" "g = 2 / 100" "h = 2 / 100"
    using lk' lk by simp_all
  have n0: "add_outcomes P ! 0 = 25472256 / 100000000"
    unfolding add vals by (simp add: frame_additional_nth powr_numeral power3_eq_cube)
  have sg: "add_outcomes P = [add_outcomes P ! 0]"
    using len by (intro singleton_nth) simp
  have a: "add_outcomes P = [25472256 / 100000000]"
    using sg unfolding n0 .
  have c: "costs' P = [407556096 / 100000]"
    unfolding cs eff a vals by simp
  have "total_cost P = py_round_ndigits (sum_list (costs' P)) 2"
    using P by (elim compute_preview_InrE) simp
  then have t: "total_cost P = 407556 / 100"
    unfolding c by (simp add: py_round_ndigits_def py_round_def Let_def)
  show ?thesis
    unfolding P using c t by simp
qed

end
